theory Spec2Isabelle
  imports Complex_Main
begin

section \<open>Python values, formatted messages and exceptions\<close>

text \<open>
  The values that \<^verbatim>\<open>odl/discr/discretization.py\<close> handles dynamically: \<^verbatim>\<open>None\<close>,
  integers, strings, tuples, class objects (compared by identity, here by their name)
  and instances, given by the name of their class and their attribute dictionary.
\<close>

datatype pyval =
    PyNone
  | PyInt int
  | PyStr string
  | PyTuple "pyval list"
  | PyClass string
  | PyObject string "(string \<times> pyval) list"

text \<open>\<^verbatim>\<open>type(x)\<close>: always a class object, never \<^verbatim>\<open>None\<close>.\<close>

fun type_py :: "pyval \<Rightarrow> pyval" where
  "type_py PyNone = PyClass ''NoneType''"
| "type_py (PyInt n) = PyClass ''int''"
| "type_py (PyStr s) = PyClass ''str''"
| "type_py (PyTuple vs) = PyClass ''tuple''"
| "type_py (PyClass c) = PyClass ''type''"
| "type_py (PyObject c attrs) = PyClass c"

text \<open>\<^verbatim>\<open>getattr(x, name, default)\<close>: the attribute if \<^verbatim>\<open>x\<close> has it, else the default.\<close>

fun getattr_default :: "pyval \<Rightarrow> string \<Rightarrow> pyval \<Rightarrow> pyval" where
  "getattr_default (PyObject c attrs) name d =
     (case map_of attrs name of Some v \<Rightarrow> v | None \<Rightarrow> d)"
| "getattr_default v name d = d"

text \<open>The classes imported from \<^verbatim>\<open>odl.set\<close>.\<close>

definition RealNumbers :: pyval where
  "RealNumbers = PyClass ''RealNumbers''"

definition ComplexNumbers :: pyval where
  "ComplexNumbers = PyClass ''ComplexNumbers''"

text \<open>
  The result of \<^verbatim>\<open>str.format\<close>: the literal pieces of the template, and for each
  placeholder the value it shows, by \<^verbatim>\<open>repr\<close> (\<^verbatim>\<open>{!r}\<close>) or by \<^verbatim>\<open>str\<close> (\<^verbatim>\<open>{}\<close>).
\<close>

datatype 'v fragment = Lit string | Repr 'v | Str 'v

datatype 'v error =
    TypeError "'v fragment list"
  | NotImplementedError "'v fragment list"
  | ValueError "'v fragment list"
  | AttributeError "'v fragment list"

section \<open>The backend selector \<^verbatim>\<open>tspace_type\<close>\<close>

text \<open>
  The three predicates of \<^verbatim>\<open>odl.util\<close> that classify a data type are not part of the
  file; the selector takes them as a parameter.
\<close>

record dtype_util =
  is_real_floating_dtype :: "pyval \<Rightarrow> bool"
  is_complex_floating_dtype :: "pyval \<Rightarrow> bool"
  is_numeric_dtype :: "pyval \<Rightarrow> bool"

text \<open>
  Modelled from the spec: \<^verbatim>\<open>odl.space.entry_points.tensor_space_impl\<close>, the lookup of a
  backend name in the Backend Registry (a flat map from names to tensor space types),
  which fails with a distinguishable error, a \<^verbatim>\<open>ValueError\<close>, on an unregistered name.
\<close>

definition tensor_space_impl :: "(string \<rightharpoonup> pyval) \<Rightarrow> string \<Rightarrow> pyval error + pyval" where
  "tensor_space_impl registry impl =
     (case registry impl of
        Some stype \<Rightarrow> Inr stype
      | None \<Rightarrow> Inl (ValueError
          [Lit ''`impl` '', Repr (PyStr impl),
           Lit '' does not correspond to a valid tensor space implmentation'']))"

text \<open>
  Lines 355--371: the \<^verbatim>\<open>if\<close>/\<open>elif\<close> chain that validates \<^verbatim>\<open>dtype\<close> against the type of
  the field; \<open>None\<close> when no branch raises.
\<close>

definition field_dtype_error :: "dtype_util \<Rightarrow> pyval \<Rightarrow> pyval \<Rightarrow> pyval error option" where
  "field_dtype_error U dtype field_type =
     (if dtype = PyNone then None
      else if is_real_floating_dtype U dtype then
        (if field_type = PyNone \<or> field_type = ComplexNumbers
         then Some (TypeError
           [Lit ''real floating data type '', Repr dtype,
            Lit '' requires space field to be of type RealNumbers, got '', Str field_type])
         else None)
      else if is_complex_floating_dtype U dtype then
        (if field_type = PyNone \<or> field_type = RealNumbers
         then Some (TypeError
           [Lit ''complex floating data type '', Repr dtype,
            Lit '' requires space field to be of type ComplexNumbers, got '', Repr field_type])
         else None)
      else if is_numeric_dtype U dtype then
        (if field_type = ComplexNumbers
         then Some (TypeError
           [Lit ''non-floating data type '', Repr dtype,
            Lit '' requires space field to be of type RealNumbers, got '', Repr field_type])
         else None)
      else None)"

definition tspace_type ::
  "dtype_util \<Rightarrow> (string \<rightharpoonup> pyval) \<Rightarrow> pyval \<Rightarrow> string \<Rightarrow> pyval \<Rightarrow> pyval error + pyval" where
  "tspace_type U registry space impl dtype =
     (let field_type = type_py (getattr_default space ''field'' PyNone) in
      case field_dtype_error U dtype field_type of
        Some e \<Rightarrow> Inl e
      | None \<Rightarrow>
          (case tensor_space_impl registry impl of
             Inr stype \<Rightarrow> Inr stype
           | Inl (ValueError m) \<Rightarrow> Inl (NotImplementedError
               [Lit ''no corresponding tensor space available for space '', Repr space,
                Lit '' and implementation '', Repr (PyStr impl)])
           | Inl e \<Rightarrow> Inl e))"

section \<open>Discretized spaces\<close>

subsection \<open>Objects\<close>

text \<open>
  A tensor space object: its identity (what \<^verbatim>\<open>is\<close> compares), the name of its class
  (\<^verbatim>\<open>type(self)\<close>), and the two attributes of the base class \<^verbatim>\<open>TensorSpace\<close>.
\<close>

record tensor_space =
  oid :: nat
  cls :: string
  shape :: "nat list"
  dtype :: pyval

text \<open>
  The arguments that the constructor may receive. \<^verbatim>\<open>TensorSpace\<close> derives from
  \<^verbatim>\<open>LinearSpace\<close> and so from \<^verbatim>\<open>Set\<close>: a tensor space passes both \<^verbatim>\<open>isinstance\<close>
  checks, another set only the first, any other value none.
\<close>

datatype pyobj =
    SetObj pyval
  | TensorSpaceObj tensor_space
  | OtherObj pyval

fun isinstance_Set :: "pyobj \<Rightarrow> bool" where
  "isinstance_Set (SetObj v) = True"
| "isinstance_Set (TensorSpaceObj t) = True"
| "isinstance_Set (OtherObj v) = False"

fun as_TensorSpace :: "pyobj \<Rightarrow> tensor_space option" where
  "as_TensorSpace (TensorSpaceObj t) = Some t"
| "as_TensorSpace v = None"

definition isinstance_TensorSpace :: "pyobj \<Rightarrow> bool" where
  "isinstance_TensorSpace v = (as_TensorSpace v \<noteq> None)"

text \<open>\<^verbatim>\<open>class DiscretizedSpace(TensorSpace)\<close>: the base attributes and the two private ones.\<close>

record discretized_space = tensor_space +
  fspace :: pyobj
  tspace :: tensor_space

text \<open>\<^verbatim>\<open>class DiscretizedSpaceElement(Tensor)\<close>, over storage handles of type \<open>'t\<close>.\<close>

record 't element =
  space :: discretized_space
  tensor :: 't

subsection \<open>Construction\<close>

text \<open>
  Modelled from the spec: \<^verbatim>\<open>TensorSpace.__init__(shape, dtype)\<close> of
  \<^verbatim>\<open>odl.space.base_tensors\<close>, the initialiser of the base class, which is not part of
  the file. The shape and the scalar type of the space are those it is given.
\<close>

definition TensorSpace_init :: "nat \<Rightarrow> string \<Rightarrow> nat list \<Rightarrow> pyval \<Rightarrow> tensor_space" where
  "TensorSpace_init self_id self_cls shp dt =
     \<lparr>oid = self_id, cls = self_cls, shape = shp, dtype = dt\<rparr>"

text \<open>
  \<^verbatim>\<open>DiscretizedSpace.__init__(self, fspace, tspace)\<close>, lines 55--64. The new object
  \<^verbatim>\<open>self\<close> is given by its identity and its class; a raise leaves no object behind.
\<close>

definition DiscretizedSpace_init ::
  "nat \<Rightarrow> string \<Rightarrow> pyobj \<Rightarrow> pyobj \<Rightarrow> pyobj error + discretized_space" where
  "DiscretizedSpace_init self_id self_cls fspace_arg tspace_arg =
     (if \<not> isinstance_Set fspace_arg then
        Inl (TypeError [Lit ''`fspace` must be a `Set` instance, got '', Repr fspace_arg])
      else
        (case as_TensorSpace tspace_arg of
           None \<Rightarrow>
             Inl (TypeError
               [Lit ''`tspace` '', Repr tspace_arg, Lit '' not a `TensorSpace` instance''])
         | Some t \<Rightarrow>
             Inr (tensor_space.extend
                    (TensorSpace_init self_id self_cls (shape t) (dtype t))
                    (discretized_space.fields fspace_arg t))))"

subsection \<open>Equality and hash of spaces\<close>

text \<open>
  What the space calls on its collaborators and on its base class, none of it part of
  the file: \<^verbatim>\<open>TensorSpace.__eq__\<close> and \<^verbatim>\<open>__hash__\<close>, \<^verbatim>\<open>==\<close> and \<^verbatim>\<open>hash\<close> of the values
  of \<^verbatim>\<open>fspace\<close> and \<^verbatim>\<open>tspace\<close>, the hash of an \<^verbatim>\<open>int\<close> and of a tuple (a function of
  the hashes of its items), the membership test \<^verbatim>\<open>in\<close> of a space,
  \<^verbatim>\<open>TensorSpace.astype\<close>, and, by the name of a class, the \<^verbatim>\<open>element\<close> method with which
  a subclass overrides the abstract one.
\<close>

record ('t, 's) space_methods =
  base_eq :: "discretized_space \<Rightarrow> discretized_space \<Rightarrow> bool"
  base_hash :: "discretized_space \<Rightarrow> int"
  fspace_eq :: "pyobj \<Rightarrow> pyobj \<Rightarrow> bool"
  fspace_hash :: "pyobj \<Rightarrow> int"
  tspace_eq :: "tensor_space \<Rightarrow> tensor_space \<Rightarrow> bool"
  tspace_hash :: "tensor_space \<Rightarrow> int"
  int_hash :: "int \<Rightarrow> int"
  tuple_hash :: "int list \<Rightarrow> int"
  contains :: "discretized_space \<Rightarrow> ('t element + pyval) \<Rightarrow> bool"
  space_astype :: "discretized_space \<Rightarrow> pyval \<Rightarrow> pyobj error + discretized_space"
  element_override ::
    "string \<Rightarrow> (discretized_space \<Rightarrow> 't \<Rightarrow> 's \<Rightarrow> (pyobj error + 't element) \<times> 's) option"

text \<open>
  \<^verbatim>\<open>DiscretizedSpace.__eq__(self, other)\<close>, lines 116--123, for \<^verbatim>\<open>other\<close> being
  \<^verbatim>\<open>None\<close> or a discretized space.
\<close>

definition DiscretizedSpace_eq ::
  "('t, 's) space_methods \<Rightarrow> discretized_space \<Rightarrow> discretized_space option \<Rightarrow> bool" where
  "DiscretizedSpace_eq M self other =
     (if (case other of Some b \<Rightarrow> oid b = oid self | None \<Rightarrow> False) then True
      else
        (case other of
           None \<Rightarrow> False
         | Some b \<Rightarrow>
             base_eq M self b \<and>
             fspace_eq M (fspace b) (fspace self) \<and>
             tspace_eq M (tspace b) (tspace self)))"

text \<open>\<^verbatim>\<open>DiscretizedSpace.__hash__(self)\<close>, lines 127--131.\<close>

definition DiscretizedSpace_hash :: "('t, 's) space_methods \<Rightarrow> discretized_space \<Rightarrow> int" where
  "DiscretizedSpace_hash M self =
     tuple_hash M
       [int_hash M (base_hash M self), fspace_hash M (fspace self), tspace_hash M (tspace self)]"

subsection \<open>Elements and the operations that delegate to \<^verbatim>\<open>tspace\<close>\<close>

text \<open>
  The Tensor Space capability, which is not part of the file: the methods of
  \<^verbatim>\<open>tspace\<close> (their first argument) and of its tensors, over storage handles \<open>'t\<close>,
  scalars \<open>'a\<close>, results \<open>'r\<close> of norm and distance, and a state \<open>'s\<close> that holds the
  storage; \<open>tensor_data\<close> reads the entries that a handle holds in a state.
\<close>

record ('t, 'a, 'r, 's) tspace_methods =
  ts_zero :: "tensor_space \<Rightarrow> 's \<Rightarrow> 't \<times> 's"
  ts_one :: "tensor_space \<Rightarrow> 's \<Rightarrow> 't \<times> 's"
  ts_lincomb :: "tensor_space \<Rightarrow> 'a \<Rightarrow> 't \<Rightarrow> 'a \<Rightarrow> 't \<Rightarrow> 't \<Rightarrow> 's \<Rightarrow> 's"
  ts_dist :: "tensor_space \<Rightarrow> 't \<Rightarrow> 't \<Rightarrow> 's \<Rightarrow> 'r"
  ts_norm :: "tensor_space \<Rightarrow> 't \<Rightarrow> 's \<Rightarrow> 'r"
  ts_inner :: "tensor_space \<Rightarrow> 't \<Rightarrow> 't \<Rightarrow> 's \<Rightarrow> 'a"
  ts_multiply :: "tensor_space \<Rightarrow> 't \<Rightarrow> 't \<Rightarrow> 't \<Rightarrow> 's \<Rightarrow> 's"
  ts_divide :: "tensor_space \<Rightarrow> 't \<Rightarrow> 't \<Rightarrow> 't \<Rightarrow> 's \<Rightarrow> 's"
  tensor_copy :: "'t \<Rightarrow> 's \<Rightarrow> 't \<times> 's"
  tensor_astype :: "'t \<Rightarrow> pyval \<Rightarrow> 's \<Rightarrow> (pyobj error + 't) \<times> 's"
  tensor_eq :: "'t \<Rightarrow> 't \<Rightarrow> 's \<Rightarrow> bool"
  tensor_data :: "'s \<Rightarrow> 't \<Rightarrow> 'a list"

text \<open>
  \<^verbatim>\<open>DiscretizedSpaceElement.__init__(self, space, tensor)\<close>, lines 213--214; the
  initialiser of the base class keeps \<^verbatim>\<open>space\<close>.
\<close>

definition DiscretizedSpaceElement_init :: "discretized_space \<Rightarrow> 't \<Rightarrow> 't element" where
  "DiscretizedSpaceElement_init space_arg tensor_arg =
     \<lparr>space = space_arg, tensor = tensor_arg\<rparr>"

text \<open>The property \<^verbatim>\<open>element_type\<close>, line 202: the class, called as a constructor.\<close>

definition element_type :: "discretized_space \<Rightarrow> discretized_space \<Rightarrow> 't \<Rightarrow> 't element" where
  "element_type self = DiscretizedSpaceElement_init"

text \<open>\<^verbatim>\<open>DiscretizedSpace.element\<close>, line 102: the abstract method.\<close>

definition DiscretizedSpace_element ::
  "discretized_space \<Rightarrow> 't \<Rightarrow> 's \<Rightarrow> (pyobj error + 't element) \<times> 's" where
  "DiscretizedSpace_element self inp \<sigma> = (Inl (NotImplementedError [Lit ''abstract method'']), \<sigma>)"

text \<open>
  The call \<^verbatim>\<open>space.element(inp)\<close>: the method of the class of \<^verbatim>\<open>space\<close>, which is the
  abstract one unless a subclass overrides it.
\<close>

definition call_element ::
  "('t, 's) space_methods \<Rightarrow> discretized_space \<Rightarrow> 't \<Rightarrow> 's \<Rightarrow> (pyobj error + 't element) \<times> 's" where
  "call_element M self inp \<sigma> =
     (case element_override M (cls self) of
        None \<Rightarrow> DiscretizedSpace_element self inp \<sigma>
      | Some f \<Rightarrow> f self inp \<sigma>)"

text \<open>\<^verbatim>\<open>DiscretizedSpace.zero\<close> and \<^verbatim>\<open>one\<close>, lines 140 and 144.\<close>

definition DiscretizedSpace_zero ::
  "('t, 'a, 'r, 's) tspace_methods \<Rightarrow> discretized_space \<Rightarrow> 's \<Rightarrow> (pyobj error + 't element) \<times> 's" where
  "DiscretizedSpace_zero T self \<sigma> =
     (case ts_zero T (tspace self) \<sigma> of (t, \<sigma>') \<Rightarrow> (Inr (element_type self self t), \<sigma>'))"

definition DiscretizedSpace_one ::
  "('t, 'a, 'r, 's) tspace_methods \<Rightarrow> discretized_space \<Rightarrow> 's \<Rightarrow> (pyobj error + 't element) \<times> 's" where
  "DiscretizedSpace_one T self \<sigma> =
     (case ts_one T (tspace self) \<sigma> of (t, \<sigma>') \<Rightarrow> (Inr (element_type self self t), \<sigma>'))"

text \<open>The raw primitives, lines 161--183.\<close>

definition DiscretizedSpace_lincomb ::
  "('t, 'a, 'r, 's) tspace_methods \<Rightarrow> discretized_space \<Rightarrow>
     'a \<Rightarrow> 't element \<Rightarrow> 'a \<Rightarrow> 't element \<Rightarrow> 't element \<Rightarrow> 's \<Rightarrow> 's" where
  "DiscretizedSpace_lincomb T self a x1 b x2 out \<sigma> =
     ts_lincomb T (tspace self) a (tensor x1) b (tensor x2) (tensor out) \<sigma>"

definition DiscretizedSpace_dist ::
  "('t, 'a, 'r, 's) tspace_methods \<Rightarrow> discretized_space \<Rightarrow> 't element \<Rightarrow> 't element \<Rightarrow> 's \<Rightarrow> 'r" where
  "DiscretizedSpace_dist T self x1 x2 \<sigma> = ts_dist T (tspace self) (tensor x1) (tensor x2) \<sigma>"

definition DiscretizedSpace_norm ::
  "('t, 'a, 'r, 's) tspace_methods \<Rightarrow> discretized_space \<Rightarrow> 't element \<Rightarrow> 's \<Rightarrow> 'r" where
  "DiscretizedSpace_norm T self x \<sigma> = ts_norm T (tspace self) (tensor x) \<sigma>"

definition DiscretizedSpace_inner ::
  "('t, 'a, 'r, 's) tspace_methods \<Rightarrow> discretized_space \<Rightarrow> 't element \<Rightarrow> 't element \<Rightarrow> 's \<Rightarrow> 'a" where
  "DiscretizedSpace_inner T self x1 x2 \<sigma> = ts_inner T (tspace self) (tensor x1) (tensor x2) \<sigma>"

definition DiscretizedSpace_multiply ::
  "('t, 'a, 'r, 's) tspace_methods \<Rightarrow> discretized_space \<Rightarrow>
     't element \<Rightarrow> 't element \<Rightarrow> 't element \<Rightarrow> 's \<Rightarrow> 's" where
  "DiscretizedSpace_multiply T self x1 x2 out \<sigma> =
     ts_multiply T (tspace self) (tensor x1) (tensor x2) (tensor out) \<sigma>"

definition DiscretizedSpace_divide ::
  "('t, 'a, 'r, 's) tspace_methods \<Rightarrow> discretized_space \<Rightarrow>
     't element \<Rightarrow> 't element \<Rightarrow> 't element \<Rightarrow> 's \<Rightarrow> 's" where
  "DiscretizedSpace_divide T self x1 x2 out \<sigma> =
     ts_divide T (tspace self) (tensor x1) (tensor x2) (tensor out) \<sigma>"

text \<open>\<^verbatim>\<open>DiscretizedSpaceElement.copy\<close>, line 240: the argument is evaluated, then the call.\<close>

definition DiscretizedSpaceElement_copy ::
  "('t, 'a, 'r, 's) tspace_methods \<Rightarrow> ('t, 's) space_methods \<Rightarrow> 't element \<Rightarrow> 's \<Rightarrow>
     (pyobj error + 't element) \<times> 's" where
  "DiscretizedSpaceElement_copy T M self \<sigma> =
     (case tensor_copy T (tensor self) \<sigma> of (t, \<sigma>') \<Rightarrow> call_element M (space self) t \<sigma>')"

text \<open>
  \<^verbatim>\<open>DiscretizedSpaceElement.astype\<close>, line 269: first \<^verbatim>\<open>self.space.astype(dtype)\<close>, whose
  \<^verbatim>\<open>element\<close> is looked up, then the argument \<^verbatim>\<open>self.tensor.astype(dtype)\<close>, then the call.
\<close>

definition DiscretizedSpaceElement_astype ::
  "('t, 'a, 'r, 's) tspace_methods \<Rightarrow> ('t, 's) space_methods \<Rightarrow> 't element \<Rightarrow> pyval \<Rightarrow> 's \<Rightarrow>
     (pyobj error + 't element) \<times> 's" where
  "DiscretizedSpaceElement_astype T M self dt \<sigma> =
     (case space_astype M (space self) dt of
        Inl e \<Rightarrow> (Inl e, \<sigma>)
      | Inr new_space \<Rightarrow>
          (case tensor_astype T (tensor self) dt \<sigma> of
             (Inl e, \<sigma>') \<Rightarrow> (Inl e, \<sigma>')
           | (Inr t, \<sigma>') \<Rightarrow> call_element M new_space t \<sigma>'))"

text \<open>
  \<^verbatim>\<open>DiscretizedSpaceElement.__eq__(self, other)\<close>, lines 280--281, for \<^verbatim>\<open>other\<close> an
  element (\<open>Inl\<close>) or any other value (\<open>Inr\<close>), which has no attribute \<^verbatim>\<open>tensor\<close>: reading
  it raises an \<^verbatim>\<open>AttributeError\<close>, here with the name of the attribute. The second
  operand of \<^verbatim>\<open>and\<close> is evaluated only if the first is true.
\<close>

definition DiscretizedSpaceElement_eq ::
  "('t, 'a, 'r, 's) tspace_methods \<Rightarrow> ('t, 's) space_methods \<Rightarrow> 't element \<Rightarrow>
     ('t element + pyval) \<Rightarrow> 's \<Rightarrow> pyobj error + bool" where
  "DiscretizedSpaceElement_eq T M self other \<sigma> =
     (if \<not> contains M (space self) other then Inr False
      else
        (case other of
           Inl e \<Rightarrow> Inr (tensor_eq T (tensor self) (tensor e) \<sigma>)
         | Inr v \<Rightarrow> Inl (AttributeError [Lit ''tensor''])))"

section \<open>Contracts of the collaborators\<close>

text \<open>
  What equality and hash of a discretized space rely on: \<^verbatim>\<open>==\<close> of the base class and
  of the values of \<^verbatim>\<open>fspace\<close> and \<^verbatim>\<open>tspace\<close> is reflexive, that of the values symmetric,
  and each is consistent with its hash.
\<close>

definition eq_hash_contract :: "('t, 's) space_methods \<Rightarrow> bool" where
  "eq_hash_contract M \<longleftrightarrow>
     (\<forall>a. base_eq M a a) \<and>
     (\<forall>x. fspace_eq M x x) \<and> (\<forall>x y. fspace_eq M x y = fspace_eq M y x) \<and>
     (\<forall>x. tspace_eq M x x) \<and> (\<forall>x y. tspace_eq M x y = tspace_eq M y x) \<and>
     (\<forall>a b. base_eq M a b \<longrightarrow> base_hash M a = base_hash M b) \<and>
     (\<forall>x y. fspace_eq M x y \<longrightarrow> fspace_hash M x = fspace_hash M y) \<and>
     (\<forall>x y. tspace_eq M x y \<longrightarrow> tspace_hash M x = tspace_hash M y)"

text \<open>
  Modelled from the spec: the contract of \<^verbatim>\<open>tspace._lincomb\<close>, which is not part of the
  file: it computes \<^verbatim>\<open>out := a*x1 + b*x2\<close> on the entries of the storage handles.
\<close>

definition lincomb_contract :: "('t, 'a::{plus,times}, 'r, 's) tspace_methods \<Rightarrow> bool" where
  "lincomb_contract T \<longleftrightarrow>
     (\<forall>S a h1 b h2 ho \<sigma>.
        tensor_data T (ts_lincomb T S a h1 b h2 ho \<sigma>) ho =
          map2 (\<lambda>u v. a * u + b * v) (tensor_data T \<sigma> h1) (tensor_data T \<sigma> h2))"

section \<open>Reference collaborators\<close>

text \<open>
  Modelled from the spec: a classifier of data types given by their names (the
  predicates of \<^verbatim>\<open>odl.util\<close>), and a Backend Registry with the one backend \<^verbatim>\<open>numpy\<close>.
\<close>

definition numpy_dtype_util :: dtype_util where
  "numpy_dtype_util =
     \<lparr>is_real_floating_dtype =
        (\<lambda>d. d \<in> set (map PyStr [''float16'', ''float32'', ''float64''])),
      is_complex_floating_dtype =
        (\<lambda>d. d \<in> set (map PyStr [''complex64'', ''complex128''])),
      is_numeric_dtype =
        (\<lambda>d. d \<in> set (map PyStr
           [''float16'', ''float32'', ''float64'', ''complex64'', ''complex128'',
            ''int8'', ''int16'', ''int32'', ''int64'',
            ''uint8'', ''uint16'', ''uint32'', ''uint64'']))\<rparr>"

definition numpy_registry :: "string \<rightharpoonup> pyval" where
  "numpy_registry = [''numpy'' \<mapsto> PyClass ''NumpyTensorSpace'']"

text \<open>
  Template spaces: over the real numbers, over the complex numbers, and one whose field
  is \<^verbatim>\<open>None\<close>.
\<close>

definition real_function_space :: pyval where
  "real_function_space = PyObject ''FunctionSpace'' [(''field'', PyObject ''RealNumbers'' [])]"

definition complex_function_space :: pyval where
  "complex_function_space =
     PyObject ''FunctionSpace'' [(''field'', PyObject ''ComplexNumbers'' [])]"

definition fieldless_space :: pyval where
  "fieldless_space = PyObject ''LinearSpace'' [(''field'', PyNone)]"

text \<open>
  Modelled from the spec: the data types that \<^verbatim>\<open>astype\<close> accepts are the scalar ones. A
  data type given by its name or by a class is scalar; a \<^verbatim>\<open>dtype\<close> object is scalar if
  its shape is the empty tuple.
\<close>

fun is_scalar_dtype :: "pyval \<Rightarrow> bool" where
  "is_scalar_dtype (PyStr name) = True"
| "is_scalar_dtype (PyClass c) = True"
| "is_scalar_dtype (PyObject c attrs) =
     (getattr_default (PyObject c attrs) ''shape'' (PyTuple []) = PyTuple [])"
| "is_scalar_dtype v = False"

text \<open>
  Modelled from the spec: a dense backend over the reals for the Tensor Space
  capability. The state holds the entries of every storage handle and the next free
  handle; \<^verbatim>\<open>astype\<close> fails with a type error on a data type that is not scalar.
\<close>

record 'a storage =
  cells :: "nat \<Rightarrow> 'a list"
  next_free :: nat

definition allocate :: "'a list \<Rightarrow> 'a storage \<Rightarrow> nat \<times> 'a storage" where
  "allocate xs \<sigma> =
     (next_free \<sigma>,
      \<sigma>\<lparr>cells := (cells \<sigma>)(next_free \<sigma> := xs), next_free := Suc (next_free \<sigma>)\<rparr>)"

definition write_cells :: "nat \<Rightarrow> 'a list \<Rightarrow> 'a storage \<Rightarrow> 'a storage" where
  "write_cells h xs \<sigma> = \<sigma>\<lparr>cells := (cells \<sigma>)(h := xs)\<rparr>"

definition reference_tspace :: "(nat, real, real, real storage) tspace_methods" where
  "reference_tspace =
     \<lparr>ts_zero = (\<lambda>T. allocate (replicate (prod_list (shape T)) 0)),
      ts_one = (\<lambda>T. allocate (replicate (prod_list (shape T)) 1)),
      ts_lincomb = (\<lambda>T a h1 b h2 ho \<sigma>.
         write_cells ho (map2 (\<lambda>u v. a * u + b * v) (cells \<sigma> h1) (cells \<sigma> h2)) \<sigma>),
      ts_dist = (\<lambda>T h1 h2 \<sigma>.
         sqrt (sum_list (map2 (\<lambda>u v. (u - v)\<^sup>2) (cells \<sigma> h1) (cells \<sigma> h2)))),
      ts_norm = (\<lambda>T h \<sigma>. sqrt (sum_list (map (\<lambda>u. u\<^sup>2) (cells \<sigma> h)))),
      ts_inner = (\<lambda>T h1 h2 \<sigma>. sum_list (map2 (\<lambda>u v. u * v) (cells \<sigma> h1) (cells \<sigma> h2))),
      ts_multiply = (\<lambda>T h1 h2 ho \<sigma>.
         write_cells ho (map2 (\<lambda>u v. u * v) (cells \<sigma> h1) (cells \<sigma> h2)) \<sigma>),
      ts_divide = (\<lambda>T h1 h2 ho \<sigma>.
         write_cells ho (map2 (\<lambda>u v. u / v) (cells \<sigma> h1) (cells \<sigma> h2)) \<sigma>),
      tensor_copy = (\<lambda>h \<sigma>. allocate (cells \<sigma> h) \<sigma>),
      tensor_astype = (\<lambda>h dt \<sigma>.
         if is_scalar_dtype dt
         then (case allocate (cells \<sigma> h) \<sigma> of (t, \<sigma>') \<Rightarrow> (Inr t, \<sigma>'))
         else (Inl (TypeError [Repr (OtherObj dt)]), \<sigma>)),
      tensor_eq = (\<lambda>h1 h2 \<sigma>. cells \<sigma> h1 = cells \<sigma> h2),
      tensor_data = cells\<rparr>"

text \<open>
  Modelled from the spec: collaborators of a discretized space with structural equality.
  The base class compares class, shape and scalar type; a space contains the elements
  whose \<^verbatim>\<open>space\<close> it is; \<^verbatim>\<open>astype\<close> gives the counterpart of the space with the scalar
  type replaced, and fails with a type error on a data type that is not scalar; the
  subclass \<^verbatim>\<open>DiscreteLp\<close> overrides \<^verbatim>\<open>element\<close>.
\<close>

definition reference_space :: "(nat, real storage) space_methods" where
  "reference_space =
     \<lparr>base_eq = (\<lambda>a b. cls b = cls a \<and> shape a = shape b \<and> dtype a = dtype b),
      base_hash = (\<lambda>a. int (length (shape a))),
      fspace_eq = (\<lambda>x y. x = y),
      fspace_hash = (\<lambda>x. case x of SetObj v \<Rightarrow> 7 | TensorSpaceObj t \<Rightarrow> 5 | OtherObj v \<Rightarrow> 3),
      tspace_eq = (\<lambda>x y. cls x = cls y \<and> shape x = shape y \<and> dtype x = dtype y),
      tspace_hash = (\<lambda>x. int (length (shape x))),
      int_hash = (\<lambda>n. n),
      tuple_hash = (\<lambda>hs. foldr (\<lambda>h acc. h + 31 * acc) hs 0),
      contains = (\<lambda>S other. case other of Inl e \<Rightarrow> space e = S | Inr v \<Rightarrow> False),
      space_astype = (\<lambda>S dt.
         if is_scalar_dtype dt
         then Inr (S\<lparr>dtype := dt, tspace := (tspace S)\<lparr>dtype := dt\<rparr>\<rparr>)
         else Inl (TypeError [Repr (OtherObj dt)])),
      element_override =
        [''DiscreteLp'' \<mapsto> (\<lambda>S t \<sigma>. (Inr (DiscretizedSpaceElement_init S t), \<sigma>))]\<rparr>"

text \<open>A tensor space of ten 64-bit floats, a function space, and two discretizations.\<close>

definition rn_tspace :: tensor_space where
  "rn_tspace = \<lparr>oid = 1, cls = ''NumpyTensorSpace'', shape = [10], dtype = PyStr ''float64''\<rparr>"

definition l2_fspace :: pyobj where
  "l2_fspace = SetObj real_function_space"

definition discr_a :: discretized_space where
  "discr_a =
     \<lparr>oid = 2, cls = ''DiscretizedSpace'', shape = [10], dtype = PyStr ''float64'',
      fspace = l2_fspace, tspace = rn_tspace\<rparr>"

definition discr_b :: discretized_space where
  "discr_b =
     \<lparr>oid = 3, cls = ''DiscretizedSpace'', shape = [10], dtype = PyStr ''float64'',
      fspace = l2_fspace, tspace = rn_tspace\<rparr>"

text \<open>
  Three elements of the first discretization over a state that holds the entries of the
  first two, and a data type with a non-trivial shape, which \<^verbatim>\<open>astype\<close> does not allow.
\<close>

definition elem_x :: "nat element" where
  "elem_x = \<lparr>space = discr_a, tensor = 0\<rparr>"

definition elem_y :: "nat element" where
  "elem_y = \<lparr>space = discr_a, tensor = 1\<rparr>"

definition elem_out :: "nat element" where
  "elem_out = \<lparr>space = discr_a, tensor = 2\<rparr>"

definition three_tensors :: "real storage" where
  "three_tensors =
     \<lparr>cells = (\<lambda>h. if h = 0 then [1, 2] else if h = 1 then [3, 4] else []), next_free = 3\<rparr>"

definition vector_dtype :: pyval where
  "vector_dtype =
     PyObject ''dtype'' [(''base'', PyStr ''float64''), (''shape'', PyTuple [PyInt 3])]"

section \<open>Properties of the backend selector\<close>

text \<open>
  The type of a field is a class object. The test \<^verbatim>\<open>field_type is None\<close> of lines 358
  and 363 therefore never holds, whatever the template space.
\<close>

lemma type_py_not_None: "type_py v \<noteq> PyNone"
  by (cases v) simp_all

lemma fieldless_passes_validation:
  assumes "getattr_default template ''field'' PyNone = PyNone"
  shows "field_dtype_error U dt (type_py (getattr_default template ''field'' PyNone)) = None"
  using assms by (simp add: field_dtype_error_def ComplexNumbers_def RealNumbers_def)

lemma fieldless_never_TypeError:
  assumes "getattr_default template ''field'' PyNone = PyNone"
  shows "tspace_type U registry template impl dt \<noteq> Inl (TypeError m)"
  using fieldless_passes_validation [OF assms, of U dt]
  by (simp add: tspace_type_def tensor_space_impl_def split: option.split)

text \<open>The two mismatches that the chain does detect.\<close>

lemma real_dtype_complex_field:
  assumes "dt \<noteq> PyNone" and "is_real_floating_dtype U dt"
    and "type_py (getattr_default template ''field'' PyNone) = ComplexNumbers"
  shows "\<exists>m. tspace_type U registry template impl dt = Inl (TypeError m)"
  using assms by (simp add: tspace_type_def field_dtype_error_def)

lemma complex_dtype_real_field:
  assumes "dt \<noteq> PyNone" and "\<not> is_real_floating_dtype U dt"
    and "is_complex_floating_dtype U dt"
    and "type_py (getattr_default template ''field'' PyNone) = RealNumbers"
  shows "\<exists>m. tspace_type U registry template impl dt = Inl (TypeError m)"
  using assms by (simp add: tspace_type_def field_dtype_error_def)

text \<open>
  C1. A template space whose field is \<^verbatim>\<open>None\<close> is to be rejected for a real floating
  data type. The code does not: for the space whose \<^verbatim>\<open>field\<close> is \<^verbatim>\<open>None\<close>, the backend
  \<^verbatim>\<open>numpy\<close> and the data type \<^verbatim>\<open>float64\<close>, \<^verbatim>\<open>tspace_type\<close> raises nothing and returns
  the registered type, since \<^verbatim>\<open>type(None)\<close> is the class \<^verbatim>\<open>NoneType\<close> and not \<^verbatim>\<open>None\<close>.
\<close>

theorem tspace_type_fieldless_real_dtype:
  "tspace_type numpy_dtype_util numpy_registry fieldless_space ''numpy'' (PyStr ''float64'')
     = Inr (PyClass ''NumpyTensorSpace'')"
  by (simp add: tspace_type_def field_dtype_error_def tensor_space_impl_def
      numpy_dtype_util_def numpy_registry_def fieldless_space_def ComplexNumbers_def)

text \<open>
  C2. With \<^verbatim>\<open>dtype\<close> equal to \<^verbatim>\<open>None\<close>, whatever the template space, the classifier and
  the backend name, \<^verbatim>\<open>tspace_type\<close> validates nothing: it never raises a type error, and
  its outcome is that of the registry lookup of the name alone, the registered type or
  the not-implemented error.
\<close>

theorem tspace_type_dtype_None:
  "tspace_type U registry template impl PyNone =
     (case registry impl of
        Some stype \<Rightarrow> Inr stype
      | None \<Rightarrow> Inl (NotImplementedError
          [Lit ''no corresponding tensor space available for space '', Repr template,
           Lit '' and implementation '', Repr (PyStr impl)]))
   \<and> (\<forall>m. tspace_type U registry template impl PyNone \<noteq> Inl (TypeError m))"
  by (simp add: tspace_type_def field_dtype_error_def tensor_space_impl_def split: option.split)

text \<open>
  C3. Whatever the template space and the backend name, once the validation of the data
  type against the field has raised nothing, as it always has for \<^verbatim>\<open>dtype\<close> equal to
  \<^verbatim>\<open>None\<close>, \<^verbatim>\<open>tspace_type\<close> returns the registered type if the name is registered, and
  otherwise fails with a not-implemented error whose message shows the template space
  and the backend name. The two failures are of distinct kinds: the validation raises
  nothing but type errors, and it does so before the lookup, whatever the registry holds.
\<close>

theorem tspace_type_registry_lookup:
  "tspace_type U registry template impl dt =
     (case field_dtype_error U dt (type_py (getattr_default template ''field'' PyNone)) of
        Some e \<Rightarrow> Inl e
      | None \<Rightarrow>
          (case registry impl of
             Some stype \<Rightarrow> Inr stype
           | None \<Rightarrow> Inl (NotImplementedError
               [Lit ''no corresponding tensor space available for space '', Repr template,
                Lit '' and implementation '', Repr (PyStr impl)])))
   \<and> (field_dtype_error U dt (type_py (getattr_default template ''field'' PyNone)) = None
      \<or> (\<exists>m. field_dtype_error U dt (type_py (getattr_default template ''field'' PyNone))
            = Some (TypeError m)))
   \<and> tspace_type U registry template impl PyNone =
     (case registry impl of
        Some stype \<Rightarrow> Inr stype
      | None \<Rightarrow> Inl (NotImplementedError
          [Lit ''no corresponding tensor space available for space '', Repr template,
           Lit '' and implementation '', Repr (PyStr impl)]))"
proof -
  have lookup: "tspace_type U registry template impl d =
     (case field_dtype_error U d (type_py (getattr_default template ''field'' PyNone)) of
        Some e \<Rightarrow> Inl e
      | None \<Rightarrow>
          (case registry impl of
             Some stype \<Rightarrow> Inr stype
           | None \<Rightarrow> Inl (NotImplementedError
               [Lit ''no corresponding tensor space available for space '', Repr template,
                Lit '' and implementation '', Repr (PyStr impl)])))" for d
    by (simp add: tspace_type_def tensor_space_impl_def split: option.split)
  have kinds: "field_dtype_error U dt ft = None
      \<or> (\<exists>m. field_dtype_error U dt ft = Some (TypeError m))" for ft
    by (simp add: field_dtype_error_def)
  have none: "field_dtype_error U PyNone ft = None" for ft
    by (simp add: field_dtype_error_def)
  from lookup [of dt] lookup [of PyNone] kinds none show ?thesis
    by simp
qed

theorem tspace_type_registry_lookup_witness:
  "tspace_type numpy_dtype_util numpy_registry real_function_space ''numpy'' (PyStr ''float64'')
     = Inr (PyClass ''NumpyTensorSpace'')
   \<and> tspace_type numpy_dtype_util numpy_registry real_function_space ''cuda'' (PyStr ''float64'')
     = Inl (NotImplementedError
          [Lit ''no corresponding tensor space available for space '', Repr real_function_space,
           Lit '' and implementation '', Repr (PyStr ''cuda'')])
   \<and> tspace_type numpy_dtype_util numpy_registry complex_function_space ''cuda''
       (PyStr ''float64'')
     = Inl (TypeError
          [Lit ''real floating data type '', Repr (PyStr ''float64''),
           Lit '' requires space field to be of type RealNumbers, got '',
           Str (PyClass ''ComplexNumbers'')])
   \<and> tspace_type numpy_dtype_util numpy_registry real_function_space ''numpy''
       (PyStr ''complex128'')
     = Inl (TypeError
          [Lit ''complex floating data type '', Repr (PyStr ''complex128''),
           Lit '' requires space field to be of type ComplexNumbers, got '',
           Repr (PyClass ''RealNumbers'')])
   \<and> tspace_type numpy_dtype_util numpy_registry complex_function_space ''numpy'' PyNone
     = Inr (PyClass ''NumpyTensorSpace'')"
  using
    tspace_type_registry_lookup
      [of numpy_dtype_util numpy_registry real_function_space "''numpy''" "PyStr ''float64''"]
    tspace_type_registry_lookup
      [of numpy_dtype_util numpy_registry real_function_space "''cuda''" "PyStr ''float64''"]
    tspace_type_registry_lookup
      [of numpy_dtype_util numpy_registry complex_function_space "''cuda''" "PyStr ''float64''"]
    tspace_type_registry_lookup
      [of numpy_dtype_util numpy_registry real_function_space "''numpy''" "PyStr ''complex128''"]
    tspace_type_registry_lookup
      [of numpy_dtype_util numpy_registry complex_function_space "''numpy''" PyNone]
  by (simp add: field_dtype_error_def numpy_dtype_util_def numpy_registry_def
      real_function_space_def complex_function_space_def RealNumbers_def ComplexNumbers_def)

section \<open>Properties of the constructor\<close>

text \<open>
  C4. For a first argument that is a \<^verbatim>\<open>Set\<close> and a second that is a \<^verbatim>\<open>TensorSpace\<close>, the
  constructor succeeds, and the shape and the scalar type of the new space are those of
  \<^verbatim>\<open>tspace\<close>; the two arguments are its \<^verbatim>\<open>fspace\<close> and its \<^verbatim>\<open>tspace\<close>.
\<close>

theorem DiscretizedSpace_init_shape_dtype:
  assumes "isinstance_Set fspace_arg" and "as_TensorSpace tspace_arg = Some t"
  shows "\<exists>S. DiscretizedSpace_init self_id self_cls fspace_arg tspace_arg = Inr S
           \<and> shape S = shape t \<and> dtype S = dtype t
           \<and> fspace S = fspace_arg \<and> tspace S = t"
  using assms
  by (simp add: DiscretizedSpace_init_def TensorSpace_init_def
      tensor_space.defs discretized_space.defs)

theorem DiscretizedSpace_init_shape_dtype_witness:
  "DiscretizedSpace_init 2 ''DiscretizedSpace'' l2_fspace (TensorSpaceObj rn_tspace) = Inr discr_a
   \<and> shape discr_a = shape rn_tspace \<and> dtype discr_a = dtype rn_tspace"
proof -
  have s: "isinstance_Set l2_fspace"
    by (simp add: l2_fspace_def)
  have t: "as_TensorSpace (TensorSpaceObj rn_tspace) = Some rn_tspace"
    by simp
  from DiscretizedSpace_init_shape_dtype [OF s t, of 2 "''DiscretizedSpace''"]
  obtain S where
    "DiscretizedSpace_init 2 ''DiscretizedSpace'' l2_fspace (TensorSpaceObj rn_tspace) = Inr S"
    and "shape S = shape rn_tspace" and "dtype S = dtype rn_tspace"
    by blast
  moreover have
    "DiscretizedSpace_init 2 ''DiscretizedSpace'' l2_fspace (TensorSpaceObj rn_tspace) = Inr discr_a"
    by (simp add: DiscretizedSpace_init_def TensorSpace_init_def l2_fspace_def rn_tspace_def
        discr_a_def tensor_space.defs discretized_space.defs)
  ultimately show ?thesis by simp
qed

text \<open>
  C5. If the first argument is not a \<^verbatim>\<open>Set\<close> or the second is not a \<^verbatim>\<open>TensorSpace\<close>, the
  constructor fails with a type error whose message names a failing argument (the first
  one, if both fail) and shows its value, and no space results.
\<close>

theorem DiscretizedSpace_init_type_mismatch:
  assumes "\<not> isinstance_Set fspace_arg \<or> \<not> isinstance_TensorSpace tspace_arg"
  shows "DiscretizedSpace_init self_id self_cls fspace_arg tspace_arg =
     Inl (TypeError
       (if \<not> isinstance_Set fspace_arg
        then [Lit ''`fspace` must be a `Set` instance, got '', Repr fspace_arg]
        else [Lit ''`tspace` '', Repr tspace_arg, Lit '' not a `TensorSpace` instance'']))
   \<and> (\<forall>S. DiscretizedSpace_init self_id self_cls fspace_arg tspace_arg \<noteq> Inr S)"
  using assms
  by (auto simp: DiscretizedSpace_init_def isinstance_TensorSpace_def split: option.splits)

theorem DiscretizedSpace_init_type_mismatch_witness:
  "DiscretizedSpace_init 2 ''DiscretizedSpace'' (OtherObj (PyStr ''abc''))
       (TensorSpaceObj rn_tspace) =
     Inl (TypeError
       [Lit ''`fspace` must be a `Set` instance, got '', Repr (OtherObj (PyStr ''abc''))])
   \<and> DiscretizedSpace_init 2 ''DiscretizedSpace'' l2_fspace l2_fspace =
     Inl (TypeError [Lit ''`tspace` '', Repr l2_fspace, Lit '' not a `TensorSpace` instance''])"
proof -
  have f: "\<not> isinstance_Set (OtherObj (PyStr ''abc''))
      \<or> \<not> isinstance_TensorSpace (TensorSpaceObj rn_tspace)"
    by simp
  have t: "\<not> isinstance_Set l2_fspace \<or> \<not> isinstance_TensorSpace l2_fspace"
    by (simp add: l2_fspace_def isinstance_TensorSpace_def)
  show ?thesis
    using DiscretizedSpace_init_type_mismatch [OF f, of 2 "''DiscretizedSpace''"]
      DiscretizedSpace_init_type_mismatch [OF t, of 2 "''DiscretizedSpace''"]
    by (simp add: l2_fspace_def)
qed

section \<open>Equality and hash\<close>

lemma reference_space_contract: "eq_hash_contract reference_space"
  by (auto simp: eq_hash_contract_def reference_space_def)

text \<open>The two shortcuts of lines 116--119 need nothing of the collaborators.\<close>

lemma DiscretizedSpace_eq_self: "DiscretizedSpace_eq M a (Some a)"
  by (simp add: DiscretizedSpace_eq_def)

lemma DiscretizedSpace_eq_None: "\<not> DiscretizedSpace_eq M a None"
  by (simp add: DiscretizedSpace_eq_def)

lemma DiscretizedSpace_eq_other:
  assumes "oid b \<noteq> oid a"
  shows "DiscretizedSpace_eq M a (Some b) \<longleftrightarrow>
    base_eq M a b \<and> fspace_eq M (fspace b) (fspace a) \<and> tspace_eq M (tspace b) (tspace a)"
  using assms by (simp add: DiscretizedSpace_eq_def)

text \<open>
  C6. For discretized spaces \<open>a\<close> and \<open>b\<close> (objects of the same identity being the same
  object) whose collaborators keep the contract of equality and hash: \<open>a == b\<close> holds if
  and only if the equality of the base class holds and the values of \<^verbatim>\<open>fspace\<close> and of
  \<^verbatim>\<open>tspace\<close> are equal; \<open>a == a\<close> is true; \<open>a == None\<close> is false; the hash of a space is
  the hash of the triple of the hash of the base class, its \<^verbatim>\<open>fspace\<close> and its \<^verbatim>\<open>tspace\<close>;
  and \<open>a == b\<close> implies that the hashes of \<open>a\<close> and \<open>b\<close> are equal.
\<close>

theorem DiscretizedSpace_eq_hash:
  assumes contract: "eq_hash_contract M"
    and ident: "oid a = oid b \<longrightarrow> a = b"
  shows "(DiscretizedSpace_eq M a (Some b) \<longleftrightarrow>
            base_eq M a b \<and> fspace_eq M (fspace a) (fspace b)
            \<and> tspace_eq M (tspace a) (tspace b))
       \<and> DiscretizedSpace_eq M a (Some a)
       \<and> \<not> DiscretizedSpace_eq M a None
       \<and> DiscretizedSpace_hash M a =
           tuple_hash M
             [int_hash M (base_hash M a), fspace_hash M (fspace a), tspace_hash M (tspace a)]
       \<and> DiscretizedSpace_hash M b =
           tuple_hash M
             [int_hash M (base_hash M b), fspace_hash M (fspace b), tspace_hash M (tspace b)]
       \<and> (DiscretizedSpace_eq M a (Some b) \<longrightarrow>
            DiscretizedSpace_hash M a = DiscretizedSpace_hash M b)"
proof (cases "oid b = oid a")
  case True
  with ident have "a = b" by simp
  moreover from contract have "base_eq M a a" "fspace_eq M (fspace a) (fspace a)"
    "tspace_eq M (tspace a) (tspace a)"
    by (simp_all add: eq_hash_contract_def)
  ultimately show ?thesis
    by (simp add: DiscretizedSpace_eq_def DiscretizedSpace_hash_def)
next
  case False
  from contract have sym:
    "fspace_eq M (fspace b) (fspace a) = fspace_eq M (fspace a) (fspace b)"
    "tspace_eq M (tspace b) (tspace a) = tspace_eq M (tspace a) (tspace b)"
    by (simp_all add: eq_hash_contract_def)
  have eq: "DiscretizedSpace_eq M a (Some b) \<longleftrightarrow>
      base_eq M a b \<and> fspace_eq M (fspace a) (fspace b) \<and> tspace_eq M (tspace a) (tspace b)"
    using DiscretizedSpace_eq_other [OF False, of M] sym by simp
  have triple: "DiscretizedSpace_hash M c =
      tuple_hash M
        [int_hash M (base_hash M c), fspace_hash M (fspace c), tspace_hash M (tspace c)]" for c
    by (simp add: DiscretizedSpace_hash_def)
  have hash: "DiscretizedSpace_hash M a = DiscretizedSpace_hash M b"
    if "DiscretizedSpace_eq M a (Some b)"
  proof -
    from that eq have "base_eq M a b" "fspace_eq M (fspace a) (fspace b)"
      "tspace_eq M (tspace a) (tspace b)"
      by simp_all
    with contract have "base_hash M a = base_hash M b"
      "fspace_hash M (fspace a) = fspace_hash M (fspace b)"
      "tspace_hash M (tspace a) = tspace_hash M (tspace b)"
      unfolding eq_hash_contract_def by blast+
    then show ?thesis
      by (simp add: triple)
  qed
  from eq hash triple [of a] triple [of b] show ?thesis
    by (simp add: DiscretizedSpace_eq_self DiscretizedSpace_eq_None)
qed

theorem DiscretizedSpace_eq_hash_witness:
  "DiscretizedSpace_eq reference_space discr_a (Some discr_b)
   \<and> DiscretizedSpace_hash reference_space discr_a = 1179
   \<and> DiscretizedSpace_hash reference_space discr_b = 1179
   \<and> DiscretizedSpace_eq reference_space discr_a (Some discr_a)
   \<and> \<not> DiscretizedSpace_eq reference_space discr_a None"
proof -
  have ident: "oid discr_a = oid discr_b \<longrightarrow> discr_a = discr_b"
    by (simp add: discr_a_def discr_b_def)
  have "base_eq reference_space discr_a discr_b
      \<and> fspace_eq reference_space (fspace discr_a) (fspace discr_b)
      \<and> tspace_eq reference_space (tspace discr_a) (tspace discr_b)"
    by (simp add: reference_space_def discr_a_def discr_b_def)
  with DiscretizedSpace_eq_hash [OF reference_space_contract ident]
  show ?thesis
    by (simp add: reference_space_def discr_a_def discr_b_def l2_fspace_def rn_tspace_def)
qed

section \<open>Elements\<close>

text \<open>
  C7. \<^verbatim>\<open>space.zero()\<close> and \<^verbatim>\<open>space.one()\<close> each return an element whose tensor is the
  result of \<^verbatim>\<open>tspace.zero()\<close>, respectively \<^verbatim>\<open>tspace.one()\<close>, and whose \<^verbatim>\<open>space\<close> is the
  space itself; they check nothing and do nothing else to the state.
\<close>

theorem DiscretizedSpace_zero_one:
  "(\<exists>e. fst (DiscretizedSpace_zero T S \<sigma>) = Inr e
        \<and> tensor e = fst (ts_zero T (tspace S) \<sigma>) \<and> space e = S)
   \<and> snd (DiscretizedSpace_zero T S \<sigma>) = snd (ts_zero T (tspace S) \<sigma>)
   \<and> (\<exists>e. fst (DiscretizedSpace_one T S \<sigma>) = Inr e
        \<and> tensor e = fst (ts_one T (tspace S) \<sigma>) \<and> space e = S)
   \<and> snd (DiscretizedSpace_one T S \<sigma>) = snd (ts_one T (tspace S) \<sigma>)"
  by (simp add: DiscretizedSpace_zero_def DiscretizedSpace_one_def element_type_def
      DiscretizedSpaceElement_init_def split: prod.split)

lemma reference_tspace_lincomb: "lincomb_contract reference_tspace"
  by (simp add: lincomb_contract_def reference_tspace_def write_cells_def)

text \<open>
  C8. Each raw primitive passes the storage handles of its elements to the primitive of
  \<^verbatim>\<open>tspace\<close> of the same name, with the scalars unchanged, and its result or its effect on
  the state is that of the primitive of \<^verbatim>\<open>tspace\<close>. So, if \<^verbatim>\<open>tspace._lincomb\<close> computes
  \<^verbatim>\<open>out := a*x1 + b*x2\<close>, then after \<^verbatim>\<open>_lincomb(a, x1, b, x2, out)\<close> the storage of \<^verbatim>\<open>out\<close>
  holds \<^verbatim>\<open>a*x1 + b*x2\<close>.
\<close>

theorem DiscretizedSpace_primitives_delegate:
  fixes T :: "('t, 'a::{plus,times}, 'r, 's) tspace_methods"
  shows "DiscretizedSpace_lincomb T S a x1 b x2 out \<sigma> =
       ts_lincomb T (tspace S) a (tensor x1) b (tensor x2) (tensor out) \<sigma>
   \<and> DiscretizedSpace_dist T S x1 x2 \<sigma> = ts_dist T (tspace S) (tensor x1) (tensor x2) \<sigma>
   \<and> DiscretizedSpace_norm T S x1 \<sigma> = ts_norm T (tspace S) (tensor x1) \<sigma>
   \<and> DiscretizedSpace_inner T S x1 x2 \<sigma> = ts_inner T (tspace S) (tensor x1) (tensor x2) \<sigma>
   \<and> DiscretizedSpace_multiply T S x1 x2 out \<sigma> =
       ts_multiply T (tspace S) (tensor x1) (tensor x2) (tensor out) \<sigma>
   \<and> DiscretizedSpace_divide T S x1 x2 out \<sigma> =
       ts_divide T (tspace S) (tensor x1) (tensor x2) (tensor out) \<sigma>
   \<and> (lincomb_contract T \<longrightarrow>
        tensor_data T (DiscretizedSpace_lincomb T S a x1 b x2 out \<sigma>) (tensor out) =
          map2 (\<lambda>u v. a * u + b * v)
            (tensor_data T \<sigma> (tensor x1)) (tensor_data T \<sigma> (tensor x2)))"
  by (simp add: DiscretizedSpace_lincomb_def DiscretizedSpace_dist_def DiscretizedSpace_norm_def
      DiscretizedSpace_inner_def DiscretizedSpace_multiply_def DiscretizedSpace_divide_def
      lincomb_contract_def)

theorem DiscretizedSpace_primitives_delegate_witness:
  "cells (DiscretizedSpace_lincomb reference_tspace discr_a 2 elem_x 3 elem_y elem_out
            three_tensors) 2
     = [11, 16]"
proof -
  have "tensor_data reference_tspace
          (DiscretizedSpace_lincomb reference_tspace discr_a 2 elem_x 3 elem_y elem_out
             three_tensors)
          (tensor elem_out) =
        map2 (\<lambda>u v. 2 * u + 3 * v)
          (tensor_data reference_tspace three_tensors (tensor elem_x))
          (tensor_data reference_tspace three_tensors (tensor elem_y))"
    using DiscretizedSpace_primitives_delegate
      [of reference_tspace discr_a 2 elem_x 3 elem_y elem_out three_tensors]
      reference_tspace_lincomb
    by blast
  then show ?thesis
    by (simp add: reference_tspace_def elem_x_def elem_y_def elem_out_def three_tensors_def)
qed

text \<open>
  C9. \<open>self == other\<close> holds if and only if \<open>other\<close> is a member of the space of \<open>self\<close> and
  the tensors of the two compare equal; for an element \<open>other\<close> the result is this
  conjunction, and for a value that is not a member it is false, whatever the value.
\<close>

theorem DiscretizedSpaceElement_eq_iff:
  "(DiscretizedSpaceElement_eq T M self other \<sigma> = Inr True \<longleftrightarrow>
      contains M (space self) other
      \<and> (\<exists>e. other = Inl e \<and> tensor_eq T (tensor self) (tensor e) \<sigma>))
   \<and> DiscretizedSpaceElement_eq T M self (Inl e') \<sigma> =
       Inr (contains M (space self) (Inl e') \<and> tensor_eq T (tensor self) (tensor e') \<sigma>)"
  by (cases other) (auto simp: DiscretizedSpaceElement_eq_def)

text \<open>
  C10, amended. On a space of a class that does not override \<^verbatim>\<open>element\<close>, \<^verbatim>\<open>zero()\<close> and
  \<^verbatim>\<open>one()\<close> succeed, and \<^verbatim>\<open>copy()\<close> of an element raises the not-implemented error of the
  abstract method. \<^verbatim>\<open>astype(dtype)\<close> raises that error if \<^verbatim>\<open>self.space.astype(dtype)\<close> and
  \<^verbatim>\<open>self.tensor.astype(dtype)\<close> return and the class of the space returned does not
  override \<^verbatim>\<open>element\<close> either; if one of the two raises, \<^verbatim>\<open>astype\<close> fails with its error.
\<close>

theorem abstract_element_zero_one_copy_astype:
  assumes "element_override M (cls (space self)) = None"
  shows "(\<exists>e. fst (DiscretizedSpace_zero T (space self) \<sigma>) = Inr e)
   \<and> (\<exists>e. fst (DiscretizedSpace_one T (space self) \<sigma>) = Inr e)
   \<and> fst (DiscretizedSpaceElement_copy T M self \<sigma>) =
       Inl (NotImplementedError [Lit ''abstract method''])
   \<and> (case space_astype M (space self) dt of
         Inl err \<Rightarrow> fst (DiscretizedSpaceElement_astype T M self dt \<sigma>) = Inl err
       | Inr new_space \<Rightarrow>
           (case fst (tensor_astype T (tensor self) dt \<sigma>) of
              Inl err \<Rightarrow> fst (DiscretizedSpaceElement_astype T M self dt \<sigma>) = Inl err
            | Inr t \<Rightarrow>
                element_override M (cls new_space) = None \<longrightarrow>
                fst (DiscretizedSpaceElement_astype T M self dt \<sigma>) =
                  Inl (NotImplementedError [Lit ''abstract method''])))"
proof -
  have zero: "\<exists>e. fst (DiscretizedSpace_zero T (space self) \<sigma>) = Inr e"
    by (simp add: DiscretizedSpace_zero_def split: prod.split)
  have one: "\<exists>e. fst (DiscretizedSpace_one T (space self) \<sigma>) = Inr e"
    by (simp add: DiscretizedSpace_one_def split: prod.split)
  have copy: "fst (DiscretizedSpaceElement_copy T M self \<sigma>) =
      Inl (NotImplementedError [Lit ''abstract method''])"
    using assms
    by (simp add: DiscretizedSpaceElement_copy_def call_element_def DiscretizedSpace_element_def
        split: prod.split)
  have astype: "(case space_astype M (space self) dt of
         Inl err \<Rightarrow> fst (DiscretizedSpaceElement_astype T M self dt \<sigma>) = Inl err
       | Inr new_space \<Rightarrow>
           (case fst (tensor_astype T (tensor self) dt \<sigma>) of
              Inl err \<Rightarrow> fst (DiscretizedSpaceElement_astype T M self dt \<sigma>) = Inl err
            | Inr t \<Rightarrow>
                element_override M (cls new_space) = None \<longrightarrow>
                fst (DiscretizedSpaceElement_astype T M self dt \<sigma>) =
                  Inl (NotImplementedError [Lit ''abstract method''])))"
    by (auto simp: DiscretizedSpaceElement_astype_def call_element_def DiscretizedSpace_element_def
        split: sum.split prod.split)
  from zero one copy astype show ?thesis by blast
qed

theorem abstract_element_zero_one_copy_astype_witness:
  "(\<exists>e. fst (DiscretizedSpace_zero reference_tspace discr_a three_tensors) = Inr e)
   \<and> fst (DiscretizedSpaceElement_copy reference_tspace reference_space elem_x three_tensors) =
       Inl (NotImplementedError [Lit ''abstract method''])
   \<and> fst (DiscretizedSpaceElement_astype reference_tspace reference_space elem_x
            (PyStr ''float32'') three_tensors) =
       Inl (NotImplementedError [Lit ''abstract method''])"
proof -
  have abstract: "element_override reference_space (cls (space elem_x)) = None"
    by (simp add: reference_space_def elem_x_def discr_a_def)
  show ?thesis
    using abstract_element_zero_one_copy_astype
      [OF abstract, of reference_tspace three_tensors "PyStr ''float32''"]
    by (simp add: reference_space_def reference_tspace_def elem_x_def discr_a_def allocate_def
        split: prod.splits)
qed

text \<open>
  C10 as stated fails for \<^verbatim>\<open>astype\<close>: on a space whose class does not override
  \<^verbatim>\<open>element\<close>, a data type with a non-trivial shape makes \<^verbatim>\<open>self.space.astype(dtype)\<close>
  raise its type error, and \<^verbatim>\<open>astype\<close> fails with it before \<^verbatim>\<open>element\<close> is called.
\<close>

theorem astype_vector_dtype_TypeError:
  "element_override reference_space (cls (space elem_x)) = None
   \<and> fst (DiscretizedSpaceElement_astype reference_tspace reference_space elem_x
            vector_dtype three_tensors) =
       Inl (TypeError [Repr (OtherObj vector_dtype)])"
  by (simp add: DiscretizedSpaceElement_astype_def reference_space_def elem_x_def discr_a_def
      vector_dtype_def)

end
